theory Spec2Isabelle
  imports Complex_Main
begin

section \<open>Python values\<close>

text \<open>
  The configuration code handles ordinary Python objects. The value type below has one
  constructor for each kind of object that \<^verbatim>\<open>_BaseSerializer._stringify\<close> and
  \<^verbatim>\<open>_BaseSerializer._pythonify\<close> tell apart. Floats, datetimes and instances of
  user classes are kept abstract (type parameters \<open>'f\<close>, \<open>'d\<close>, \<open>'o\<close>): what
  Python's own library computes on them (\<^verbatim>\<open>str(float)\<close>, \<^verbatim>\<open>datetime.isoformat()\<close>,
  truth values, a \<^verbatim>\<open>_stringify\<close> method) is a parameter of the model, collected in
  the record \<open>builtins\<close>.

  A \<^verbatim>\<open>timedelta\<close> is the normalised triple Python stores: days, seconds
  (0 to 86399) and microseconds (0 to 999999).

  Dictionaries are association lists in insertion order with string keys (the keys of
  a configuration file); sets are listed in their iteration order. \<open>PObject\<close> is
  any object of no other kind, and any object that has a \<^verbatim>\<open>_stringify\<close> attribute;
  \<open>PEnum\<close> is a member of a plain \<^verbatim>\<open>Enum\<close>.
\<close>

record timedelta =
  days :: int
  seconds :: int
  microseconds :: int

datatype ('f, 'd, 'o) pyval =
    PNone
  | PBool bool
  | PInt int
  | PFloat 'f
  | PStr string
  | PDatetime 'd
  | PTimedelta timedelta
  | PFunction string string
  | PClass string string
  | PEnum string string string
  | PDict "(string \<times> ('f, 'd, 'o) pyval) list"
  | PList "('f, 'd, 'o) pyval list"
  | PTuple "('f, 'd, 'o) pyval list"
  | PSet "('f, 'd, 'o) pyval list"
  | PObject 'o

text \<open>
  \<open>PFunction m n\<close> is a function (or builtin) with \<^verbatim>\<open>__module__ == m\<close> and
  \<^verbatim>\<open>__name__ == n\<close>; \<open>PClass m q\<close> a class with module \<open>m\<close> and qualified name
  \<open>q\<close>; \<open>PEnum m q n\<close> the member \<open>n\<close> of the enum class \<open>q\<close> of module \<open>m\<close>.
\<close>

record ('f, 'd, 'o) builtins =
  float_str :: "'f \<Rightarrow> string"
  float_bool :: "'f \<Rightarrow> bool"
  datetime_isoformat :: "'d \<Rightarrow> string"
  obj_stringify :: "'o \<Rightarrow> ('f, 'd, 'o) pyval option"
  obj_bool :: "'o \<Rightarrow> bool"

text \<open>
  \<open>obj_stringify o\<close> is \<open>Some r\<close> when the object has a callable \<^verbatim>\<open>_stringify\<close>
  attribute that returns \<open>r\<close>, and \<open>None\<close> when it has none.
\<close>

datatype error =
    LoadingError string
  | TypeError string
  | HandlerError string

text \<open>
  \<open>HandlerError\<close> stands for whatever the absent module
  \<^verbatim>\<open>common/_template_handler.py\<close> raises (a missing or inconsistent environment
  variable).
\<close>

section \<open>Rendering integers and booleans\<close>

text \<open>\<^verbatim>\<open>str(n)\<close> for a Python int: decimal digits, a minus sign for a negative number.\<close>

definition digit_char :: "nat \<Rightarrow> char" where
  "digit_char d = char_of (48 + d)"

fun str_nat :: "nat \<Rightarrow> string" where
  "str_nat n = (if n < 10 then [digit_char n] else str_nat (n div 10) @ [digit_char (n mod 10)])"

declare str_nat.simps [simp del]

definition str_int :: "int \<Rightarrow> string" where
  "str_int i = (if i < 0 then CHR ''-'' # str_nat (nat (- i)) else str_nat (nat i))"

definition str_bool :: "bool \<Rightarrow> string" where
  "str_bool b = (if b then ''True'' else ''False'')"

section \<open>The serializer: values to tagged strings\<close>

text \<open>
  \<^verbatim>\<open>timedelta.total_seconds()\<close> is a float in Python. The model computes with the
  exact rational; the two agree whenever the total number of microseconds is below
  \<open>2^53\<close> in absolute value (about 285 years), and whenever the microseconds field
  is zero.
  \<open>py_floordiv\<close> and \<open>py_mod\<close> are Python's \<^verbatim>\<open>//\<close> and \<^verbatim>\<open>%\<close> on floats,
  \<open>py_int\<close> is \<^verbatim>\<open>int(x)\<close>, which truncates towards zero.
\<close>

definition total_seconds :: "timedelta \<Rightarrow> rat" where
  "total_seconds td =
     of_int ((days td * 86400 + seconds td) * 10 ^ 6 + microseconds td) / 10 ^ 6"

definition py_floordiv :: "rat \<Rightarrow> rat \<Rightarrow> rat" where
  "py_floordiv x y = of_int \<lfloor>x / y\<rfloor>"

definition py_mod :: "rat \<Rightarrow> rat \<Rightarrow> rat" where
  "py_mod x y = x - y * of_int \<lfloor>x / y\<rfloor>"

definition py_int :: "rat \<Rightarrow> int" where
  "py_int x = (if 0 \<le> x then \<lfloor>x\<rfloor> else \<lceil>x\<rceil>)"

definition timedelta_to_str :: "timedelta \<Rightarrow> string" where
  "timedelta_to_str obj =
     (let total_seconds = total_seconds obj in
      str_int (py_int (py_floordiv total_seconds 86400)) @ ''d'' @
      str_int (py_int (py_floordiv (py_mod total_seconds 86400) 3600)) @ ''h'' @
      str_int (py_int (py_floordiv (py_mod total_seconds 3600) 60)) @ ''m'' @
      str_int (py_int (py_mod total_seconds 60)) @ ''s'')"

text \<open>
  The same timedelta as a whole number of microseconds, used to state the rendering in
  integer arithmetic.
\<close>

definition total_microseconds :: "timedelta \<Rightarrow> int" where
  "total_microseconds td = (days td * 86400 + seconds td) * 10 ^ 6 + microseconds td"

text \<open>
  \<^verbatim>\<open>_stringify\<close>, branch by branch in the order of the source. The dictionary
  comprehension \<^verbatim>\<open>{str(key): cls._stringify(val) ...}\<close> keeps the keys, which are
  strings already.
\<close>

fun stringify :: "('f, 'd, 'o) builtins \<Rightarrow> ('f, 'd, 'o) pyval \<Rightarrow> ('f, 'd, 'o) pyval" where
  "stringify bi PNone = PNone"
| "stringify bi (PObject ob) =
     (case obj_stringify bi ob of Some r \<Rightarrow> r | None \<Rightarrow> PObject ob)"
| "stringify bi (PBool b) = PStr (str_bool b @ '':bool'')"
| "stringify bi (PInt i) = PStr (str_int i @ '':int'')"
| "stringify bi (PFloat x) = PStr (float_str bi x @ '':float'')"
| "stringify bi (PDatetime d) = PStr (datetime_isoformat bi d @ '':datetime'')"
| "stringify bi (PTimedelta td) = PStr (timedelta_to_str td @ '':timedelta'')"
| "stringify bi (PFunction m n) = PStr (m @ ''.'' @ n @ '':function'')"
| "stringify bi (PClass m q) = PStr (m @ ''.'' @ q @ '':class'')"
| "stringify bi (PEnum m q n) = PStr (m @ ''.'' @ q @ ''.'' @ n @ '':enum'')"
| "stringify bi (PDict kvs) = PDict (map (\<lambda>kv. (fst kv, stringify bi (snd kv))) kvs)"
| "stringify bi (PList vs) = PList (map (stringify bi) vs)"
| "stringify bi (PTuple vs) = PList (map (stringify bi) vs)"
| "stringify bi (PSet vs) = PList (map (stringify bi) vs)"
| "stringify bi (PStr s) = PStr s"

section \<open>The deserializer: tagged strings to values\<close>

subsection \<open>What the deserializer takes from outside\<close>

text \<open>
  \<^verbatim>\<open>_pythonify\<close> calls the class \<^verbatim>\<open>_TemplateHandler\<close> of
  \<^verbatim>\<open>common/_template_handler.py\<close>, which is not among the sources. Its regular
  expression \<^verbatim>\<open>_PATTERN\<close> and its converters are therefore parameters of the model:
  \<open>template_match val\<close> stands for
  \<^verbatim>\<open>re.fullmatch(_TemplateHandler._PATTERN, str(val))\<close> being a match, the
  \<open>to_...\<close> fields for the static methods of the same names (\<open>Inl\<close> when they
  raise), and \<open>replace_templates\<close> for \<^verbatim>\<open>_TemplateHandler._replace_templates\<close>,
  which the properties of \<^verbatim>\<open>RestConfig\<close> call.
\<close>

record ('f, 'd, 'o) template_handler =
  template_match :: "('f, 'd, 'o) pyval \<Rightarrow> bool"
  to_bool :: "string \<Rightarrow> error + ('f, 'd, 'o) pyval"
  to_int :: "string \<Rightarrow> error + ('f, 'd, 'o) pyval"
  to_float :: "string \<Rightarrow> error + ('f, 'd, 'o) pyval"
  to_datetime :: "string \<Rightarrow> error + ('f, 'd, 'o) pyval"
  to_timedelta :: "string \<Rightarrow> error + ('f, 'd, 'o) pyval"
  to_function :: "string \<Rightarrow> error + ('f, 'd, 'o) pyval"
  to_class :: "string \<Rightarrow> error + ('f, 'd, 'o) pyval"
  to_enum :: "string \<Rightarrow> error + ('f, 'd, 'o) pyval"
  replace_templates :: "('f, 'd, 'o) pyval \<Rightarrow> error + ('f, 'd, 'o) pyval"

text \<open>
  The class attributes of \<^verbatim>\<open>_BaseSerializer\<close> that \<^verbatim>\<open>_register\<close> mutates: the list
  \<^verbatim>\<open>_SERIALIZABLE_TYPES\<close> and the dictionary \<^verbatim>\<open>_registered_types\<close>, whose values
  are classes with a \<^verbatim>\<open>_pythonify\<close> method (here: that method). \<open>BaseSerializer\<close>
  is the class as the source file defines it, before any registration.
\<close>

record ('f, 'd, 'o) serializer =
  SERIALIZABLE_TYPES :: "string list"
  registered_types :: "string \<rightharpoonup> (('f, 'd, 'o) pyval \<Rightarrow> error + ('f, 'd, 'o) pyval)"

definition BaseSerializer :: "('f, 'd, 'o) serializer" where
  "BaseSerializer =
     \<lparr>SERIALIZABLE_TYPES = [''bool'', ''str'', ''int'', ''float'', ''datetime'', ''timedelta'',
        ''function'', ''class'', ''enum'', ''SECTION''],
      registered_types = Map.empty\<rparr>"

subsection \<open>The type pattern\<close>

text \<open>
  \<^verbatim>\<open>TYPE_PATTERN\<close> is \<^verbatim>\<open>^(.+):(\bT1\b|\bT2\b|...)?$\<close> for the serializable type names
  \<open>T1, T2, ...\<close>, and it is used with \<^verbatim>\<open>re.fullmatch\<close>. A match splits the string
  at a colon: group 1, before it, is non-empty and has no newline (\<^verbatim>\<open>.\<close> matches
  every character but the newline); what follows the colon is empty (group 2 is then
  \<^verbatim>\<open>None\<close>) or one of the type names. \<^verbatim>\<open>.+\<close> is greedy, so of several possible
  colons the last one is taken: \<open>type_pattern_split\<close> looks for a split further right
  before it accepts the colon at hand.

  Between the colon and the end of the string, \<^verbatim>\<open>\bT\b\<close> matches \<open>T\<close> exactly
  when \<open>T\<close> starts and ends with a word character. Type names are matched literally (no
  name in the source has a character that is special in a regular expression), and word
  characters are the ASCII letters, digits and the underscore.
\<close>

definition newline :: char where
  "newline = CHR 0x0A"

definition is_word_char :: "char \<Rightarrow> bool" where
  "is_word_char c =
     (let n = (of_char c :: nat) in
      (97 \<le> n \<and> n \<le> 122) \<or> (65 \<le> n \<and> n \<le> 90) \<or> (48 \<le> n \<and> n \<le> 57) \<or> n = 95)"

definition type_alternative :: "string list \<Rightarrow> string \<Rightarrow> bool" where
  "type_alternative types rest =
     (rest \<in> set types \<and> rest \<noteq> [] \<and> is_word_char (hd rest) \<and> is_word_char (last rest))"

fun type_pattern_split ::
  "string list \<Rightarrow> string \<Rightarrow> string \<Rightarrow> (string \<times> string option) option" where
  "type_pattern_split types pre [] = None"
| "type_pattern_split types pre (c # cs) =
     (case type_pattern_split types (pre @ [c]) cs of
        Some r \<Rightarrow> Some r
      | None \<Rightarrow>
          if c = CHR '':'' \<and> pre \<noteq> [] \<and> newline \<notin> set pre \<and>
             (cs = [] \<or> type_alternative types cs)
          then Some (pre, if cs = [] then None else Some cs)
          else None)"

definition TYPE_PATTERN_fullmatch ::
  "string list \<Rightarrow> string \<Rightarrow> (string \<times> string option) option" where
  "TYPE_PATTERN_fullmatch types s = type_pattern_split types [] s"

subsection \<open>The conversion\<close>

text \<open>
  \<open>sequence\<close> runs a comprehension whose elements may raise: the first exception wins.
  \<open>none_str\<close> is how an f-string prints group 2. \<open>convert\<close> is the chain of tests on
  \<^verbatim>\<open>dynamic_type\<close> inside \<^verbatim>\<open>_pythonify\<close>; \<^verbatim>\<open>None\<close> is no key of
  \<^verbatim>\<open>_registered_types\<close>.
\<close>

definition sequence :: "('e + 'a) list \<Rightarrow> 'e + 'a list" where
  "sequence rs =
     foldr (\<lambda>r acc. case r of
                Inl e \<Rightarrow> Inl e
              | Inr x \<Rightarrow> (case acc of Inl e \<Rightarrow> Inl e | Inr xs \<Rightarrow> Inr (x # xs)))
       rs (Inr [])"

definition none_str :: "string option \<Rightarrow> string" where
  "none_str t = (case t of None \<Rightarrow> ''None'' | Some s \<Rightarrow> s)"

definition convert ::
  "('f, 'd, 'o) template_handler \<Rightarrow> ('f, 'd, 'o) serializer \<Rightarrow> string \<Rightarrow> string \<Rightarrow>
     string option \<Rightarrow> error + ('f, 'd, 'o) pyval" where
  "convert th st val actual_val dynamic_type =
     (if dynamic_type = Some ''SECTION'' then Inr (PStr actual_val)
      else case (case dynamic_type of None \<Rightarrow> None | Some t \<Rightarrow> registered_types st t) of
        Some registered_pythonify \<Rightarrow> registered_pythonify (PStr actual_val)
      | None \<Rightarrow>
          if dynamic_type = Some ''bool'' then to_bool th actual_val
          else if dynamic_type = Some ''int'' then to_int th actual_val
          else if dynamic_type = Some ''float'' then to_float th actual_val
          else if dynamic_type = Some ''datetime'' then to_datetime th actual_val
          else if dynamic_type = Some ''timedelta'' then to_timedelta th actual_val
          else if dynamic_type = Some ''function'' then to_function th actual_val
          else if dynamic_type = Some ''class'' then to_class th actual_val
          else if dynamic_type = Some ''enum'' then to_enum th actual_val
          else if dynamic_type = Some ''str'' then Inr (PStr actual_val)
          else Inl (LoadingError (''Error loading toml configuration at '' @ val @ ''. '' @
                 none_str dynamic_type @ '' type is not supported.'')))"

text \<open>
  \<^verbatim>\<open>_pythonify\<close>. A value that matches the template pattern is returned as it is. A
  string that matches the type pattern is converted (every branch returns or raises); a
  string that does not falls through to the final \<^verbatim>\<open>return val\<close>. A dictionary with
  one entry whose key is a registered type goes to that type; any other dictionary and
  any list is converted entry by entry. Every other value is returned as it is.
\<close>

fun pythonify ::
  "('f, 'd, 'o) template_handler \<Rightarrow> ('f, 'd, 'o) serializer \<Rightarrow> ('f, 'd, 'o) pyval \<Rightarrow>
     error + ('f, 'd, 'o) pyval" where
  "pythonify th st (PStr s) =
     (if template_match th (PStr s) then Inr (PStr s)
      else case TYPE_PATTERN_fullmatch (SERIALIZABLE_TYPES st) s of
        Some (actual_val, dynamic_type) \<Rightarrow> convert th st s actual_val dynamic_type
      | None \<Rightarrow> Inr (PStr s))"
| "pythonify th st (PDict kvs) =
     (if template_match th (PDict kvs) then Inr (PDict kvs)
      else case (case kvs of
                   [(k, v)] \<Rightarrow> map_option (\<lambda>registered_pythonify. registered_pythonify v)
                                 (registered_types st k)
                 | _ \<Rightarrow> None) of
        Some r \<Rightarrow> r
      | None \<Rightarrow>
          map_sum id PDict
            (sequence (map (\<lambda>kv. map_sum id (Pair (fst kv)) (pythonify th st (snd kv))) kvs)))"
| "pythonify th st (PList vs) =
     (if template_match th (PList vs) then Inr (PList vs)
      else map_sum id PList (sequence (map (pythonify th st) vs)))"
| "pythonify th st v = Inr v"

section \<open>A template handler for examples\<close>

text \<open>
  Modelled from the spec: the module \<^verbatim>\<open>common/_template_handler.py\<close>
  (class \<^verbatim>\<open>_TemplateHandler\<close>) is missing from the sources, and the specification says
  of it only that tagged strings are converted "and back". The theorems below hold for
  every handler; the one defined here serves to evaluate them at concrete inputs. It
  follows the uses of the handler in \<^verbatim>\<open>tests/rest/test_rest_config.py\<close>: a template
  is \<^verbatim>\<open>ENV[NAME]\<close> or \<^verbatim>\<open>ENV[NAME]:type\<close> with type bool, str, float or int; a
  template whose variable is not set raises; \<^verbatim>\<open>"true"\<close> converts to \<^verbatim>\<open>True\<close> and
  \<^verbatim>\<open>"3"\<close> to \<^verbatim>\<open>3\<close>; every other value is left as it is.

  What Python's library does for the handler is the record \<open>library\<close>: the environment
  variables, the parsers of floats, datetimes and timedeltas, and the import of a dotted
  name.
\<close>

record ('f, 'd, 'o) library =
  environ :: "string \<rightharpoonup> string"
  float_of_str :: "string \<Rightarrow> 'f option"
  datetime_fromisoformat :: "string \<Rightarrow> 'd option"
  timedelta_of_str :: "string \<Rightarrow> timedelta option"
  locate :: "string \<Rightarrow> ('f, 'd, 'o) pyval option"

definition is_digit_char :: "char \<Rightarrow> bool" where
  "is_digit_char c = (let n = (of_char c :: nat) in 48 \<le> n \<and> n \<le> 57)"

definition lower_char :: "char \<Rightarrow> char" where
  "lower_char c =
     (let n = (of_char c :: nat) in if 65 \<le> n \<and> n \<le> 90 then char_of (n + 32) else c)"

text \<open>
  Modelled from the spec: \<^verbatim>\<open>_TemplateHandler._PATTERN\<close> (missing), as a full match
  of \<^verbatim>\<open>ENV[NAME]\<close> with an optional \<^verbatim>\<open>:bool\<close>, \<^verbatim>\<open>:str\<close>, \<^verbatim>\<open>:float\<close> or
  \<^verbatim>\<open>:int\<close>; the result is the name and the type.
\<close>

definition PATTERN_fullmatch :: "string \<Rightarrow> (string \<times> string option) option" where
  "PATTERN_fullmatch s =
     (if take 4 s = ''ENV['' then
        (let var = takeWhile is_word_char (drop 4 s);
             rest = dropWhile is_word_char (drop 4 s)
         in if var = [] \<or> is_digit_char (hd var) then None
            else if rest = '']'' then Some (var, None)
            else if rest = '']:bool'' then Some (var, Some ''bool'')
            else if rest = '']:str'' then Some (var, Some ''str'')
            else if rest = '']:float'' then Some (var, Some ''float'')
            else if rest = '']:int'' then Some (var, Some ''int'')
            else None)
      else None)"

text \<open>
  Modelled from the spec: \<^verbatim>\<open>int(val)\<close> inside the missing \<^verbatim>\<open>_to_int\<close>, for a
  decimal numeral with an optional sign.
\<close>

definition digit_val :: "char \<Rightarrow> nat" where
  "digit_val c = of_char c - 48"

definition parse_nat :: "string \<Rightarrow> nat option" where
  "parse_nat s =
     (if s \<noteq> [] \<and> list_all is_digit_char s
      then Some (foldl (\<lambda>a c. 10 * a + digit_val c) 0 s) else None)"

definition parse_int :: "string \<Rightarrow> int option" where
  "parse_int s =
     (case s of
        [] \<Rightarrow> None
      | c # cs \<Rightarrow>
          if c = CHR ''-'' then map_option (\<lambda>n. - int n) (parse_nat cs)
          else if c = CHR ''+'' then map_option int (parse_nat cs)
          else map_option int (parse_nat s))"

text \<open>
  Modelled from the spec: the missing converters \<^verbatim>\<open>_to_bool\<close>, \<^verbatim>\<open>_to_int\<close> and
  \<^verbatim>\<open>_to_float\<close>.
\<close>

definition env_to_bool :: "string \<Rightarrow> error + ('f, 'd, 'o) pyval" where
  "env_to_bool val =
     (if map lower_char val = ''true'' then Inr (PBool True)
      else if map lower_char val = ''false'' then Inr (PBool False)
      else Inl (HandlerError (val @ '' is not a Boolean.'')))"

definition env_to_int :: "string \<Rightarrow> error + ('f, 'd, 'o) pyval" where
  "env_to_int val =
     (case parse_int val of
        Some i \<Rightarrow> Inr (PInt i)
      | None \<Rightarrow> Inl (HandlerError (val @ '' is not an integer.'')))"

definition env_to_float :: "('f, 'd, 'o) library \<Rightarrow> string \<Rightarrow> error + ('f, 'd, 'o) pyval" where
  "env_to_float lib val =
     (case float_of_str lib val of
        Some x \<Rightarrow> Inr (PFloat x)
      | None \<Rightarrow> Inl (HandlerError (val @ '' is not a float.'')))"

text \<open>
  Modelled from the spec: the missing \<^verbatim>\<open>_replace_templates\<close>, for one value: a string
  that is a template becomes the value of its environment variable, converted to the
  type the template names.
\<close>

definition env_replace_template ::
  "('f, 'd, 'o) library \<Rightarrow> ('f, 'd, 'o) pyval \<Rightarrow> error + ('f, 'd, 'o) pyval" where
  "env_replace_template lib template =
     (case template of
        PStr s \<Rightarrow>
          (case PATTERN_fullmatch s of
             None \<Rightarrow> Inr template
           | Some (var, dynamic_type) \<Rightarrow>
               (case environ lib var of
                  None \<Rightarrow> Inl (HandlerError (''Environment variable '' @ var @ '' is not set.''))
                | Some val \<Rightarrow>
                    if dynamic_type = Some ''bool'' then env_to_bool val
                    else if dynamic_type = Some ''int'' then env_to_int val
                    else if dynamic_type = Some ''float'' then env_to_float lib val
                    else Inr (PStr val)))
      | _ \<Rightarrow> Inr template)"

text \<open>
  Modelled from the spec: the missing class \<^verbatim>\<open>_TemplateHandler\<close> as a whole. Only a
  string can match the template pattern here.
\<close>

definition env_handler :: "('f, 'd, 'o) library \<Rightarrow> ('f, 'd, 'o) template_handler" where
  "env_handler lib =
     \<lparr>template_match = (\<lambda>val. case val of PStr s \<Rightarrow> PATTERN_fullmatch s \<noteq> None | _ \<Rightarrow> False),
      to_bool = env_to_bool,
      to_int = env_to_int,
      to_float = env_to_float lib,
      to_datetime = (\<lambda>val. case datetime_fromisoformat lib val of
          Some d \<Rightarrow> Inr (PDatetime d)
        | None \<Rightarrow> Inl (HandlerError (val @ '' is not a valid datetime.''))),
      to_timedelta = (\<lambda>val. case timedelta_of_str lib val of
          Some td \<Rightarrow> Inr (PTimedelta td)
        | None \<Rightarrow> Inl (HandlerError (val @ '' is not a valid timedelta.''))),
      to_function = (\<lambda>val. case locate lib val of
          Some f \<Rightarrow> Inr f
        | None \<Rightarrow> Inl (HandlerError (val @ '' is not a valid function.''))),
      to_class = (\<lambda>val. case locate lib val of
          Some c \<Rightarrow> Inr c
        | None \<Rightarrow> Inl (HandlerError (val @ '' is not a valid class.''))),
      to_enum = (\<lambda>val. case locate lib val of
          Some e \<Rightarrow> Inr e
        | None \<Rightarrow> Inl (HandlerError (val @ '' is not a valid enum.''))),
      replace_templates = (\<lambda>template. case template of
          PTuple items \<Rightarrow> map_sum id PTuple (sequence (map (env_replace_template lib) items))
        | _ \<Rightarrow> env_replace_template lib template)\<rparr>"

text \<open>
  The library and the builtins at which examples are evaluated: a process with no
  environment variable set, where floats, datetimes and objects do not occur (their
  types have one element, and no string parses to them).
\<close>

definition bare_library :: "(unit, unit, unit) library" where
  "bare_library =
     \<lparr>environ = Map.empty, float_of_str = (\<lambda>_. None), datetime_fromisoformat = (\<lambda>_. None),
      timedelta_of_str = (\<lambda>_. None), locate = (\<lambda>_. None)\<rparr>"

definition bare_builtins :: "(unit, unit, unit) builtins" where
  "bare_builtins =
     \<lparr>float_str = (\<lambda>_. ''0.0''), float_bool = (\<lambda>_. False),
      datetime_isoformat = (\<lambda>_. ''1970-01-01T00:00:00''),
      obj_stringify = (\<lambda>_. None), obj_bool = (\<lambda>_. True)\<rparr>"

section \<open>The REST configuration section\<close>

subsection \<open>The section and its properties\<close>

text \<open>
  A \<^verbatim>\<open>RestConfig\<close> object: the five attributes \<^verbatim>\<open>_port\<close>, \<^verbatim>\<open>_host\<close>,
  \<^verbatim>\<open>_use_https\<close>, \<^verbatim>\<open>_ssl_cert\<close>, \<^verbatim>\<open>_ssl_key\<close> (here \<open>raw_port\<close> and so on)
  and the dictionary \<^verbatim>\<open>_properties\<close> of its base class. \<open>default_config\<close> is
  \<^verbatim>\<open>RestConfig.default_config()\<close>. The Python properties \<^verbatim>\<open>port\<close>, \<^verbatim>\<open>host\<close>,
  \<^verbatim>\<open>use_https\<close>, \<^verbatim>\<open>ssl_cert\<close> and \<^verbatim>\<open>ssl_key\<close> pass the attribute through
  \<^verbatim>\<open>_tpl._replace_templates\<close>, which may raise.
\<close>

record ('f, 'd, 'o) rest_config =
  raw_port :: "('f, 'd, 'o) pyval"
  raw_host :: "('f, 'd, 'o) pyval"
  raw_use_https :: "('f, 'd, 'o) pyval"
  raw_ssl_cert :: "('f, 'd, 'o) pyval"
  raw_ssl_key :: "('f, 'd, 'o) pyval"
  properties :: "string \<rightharpoonup> ('f, 'd, 'o) pyval"

definition default_config :: "('f, 'd, 'o) rest_config" where
  "default_config =
     \<lparr>raw_port = PInt 5000, raw_host = PStr ''127.0.0.1'', raw_use_https = PBool False,
      raw_ssl_cert = PNone, raw_ssl_key = PNone, properties = Map.empty\<rparr>"

definition port ::
  "('f, 'd, 'o) template_handler \<Rightarrow> ('f, 'd, 'o) rest_config \<Rightarrow> error + ('f, 'd, 'o) pyval" where
  "port th rc = replace_templates th (raw_port rc)"

definition host ::
  "('f, 'd, 'o) template_handler \<Rightarrow> ('f, 'd, 'o) rest_config \<Rightarrow> error + ('f, 'd, 'o) pyval" where
  "host th rc = replace_templates th (raw_host rc)"

definition use_https ::
  "('f, 'd, 'o) template_handler \<Rightarrow> ('f, 'd, 'o) rest_config \<Rightarrow> error + ('f, 'd, 'o) pyval" where
  "use_https th rc = replace_templates th (raw_use_https rc)"

definition ssl_cert ::
  "('f, 'd, 'o) template_handler \<Rightarrow> ('f, 'd, 'o) rest_config \<Rightarrow> error + ('f, 'd, 'o) pyval" where
  "ssl_cert th rc = replace_templates th (raw_ssl_cert rc)"

definition ssl_key ::
  "('f, 'd, 'o) template_handler \<Rightarrow> ('f, 'd, 'o) rest_config \<Rightarrow> error + ('f, 'd, 'o) pyval" where
  "ssl_key th rc = replace_templates th (raw_ssl_key rc)"

subsection \<open>Truth values and instance tests\<close>

text \<open>
  \<open>truthy\<close> is Python's truth value of an object (\<^verbatim>\<open>if x\<close>, \<^verbatim>\<open>not x\<close>).
  \<open>as_int v\<close> is the integer a value is when \<^verbatim>\<open>isinstance(v, int)\<close> holds (a bool
  is an int in Python: \<^verbatim>\<open>True == 1\<close>), and \<open>as_str v\<close> the string when
  \<^verbatim>\<open>isinstance(v, str)\<close> holds.
\<close>

fun truthy :: "('f, 'd, 'o) builtins \<Rightarrow> ('f, 'd, 'o) pyval \<Rightarrow> bool" where
  "truthy bi PNone = False"
| "truthy bi (PBool b) = b"
| "truthy bi (PInt i) = (i \<noteq> 0)"
| "truthy bi (PFloat x) = float_bool bi x"
| "truthy bi (PStr s) = (s \<noteq> [])"
| "truthy bi (PDatetime d) = True"
| "truthy bi (PTimedelta td) = (total_microseconds td \<noteq> 0)"
| "truthy bi (PFunction m n) = True"
| "truthy bi (PClass m q) = True"
| "truthy bi (PEnum m q n) = True"
| "truthy bi (PDict kvs) = (kvs \<noteq> [])"
| "truthy bi (PList vs) = (vs \<noteq> [])"
| "truthy bi (PTuple vs) = (vs \<noteq> [])"
| "truthy bi (PSet vs) = (vs \<noteq> [])"
| "truthy bi (PObject ob) = obj_bool bi ob"

fun as_int :: "('f, 'd, 'o) pyval \<Rightarrow> int option" where
  "as_int (PInt i) = Some i"
| "as_int (PBool b) = Some (if b then 1 else 0)"
| "as_int v = None"

fun as_str :: "('f, 'd, 'o) pyval \<Rightarrow> string option" where
  "as_str (PStr s) = Some s"
| "as_str v = None"

subsection \<open>The issue collector\<close>

text \<open>
  Modelled from the spec: the classes \<^verbatim>\<open>IssueCollector\<close> and \<^verbatim>\<open>_ConfigChecker\<close>
  (module \<^verbatim>\<open>common/config/checker\<close>) are missing from the sources, and the
  specification calls the REST section "a validated settings object" without describing
  them. As the tests read them (\<^verbatim>\<open>issues.errors[0].field\<close>, \<^verbatim>\<open>issues.warnings\<close>,
  \<^verbatim>\<open>issues.infos\<close>), a collector holds three lists of issues, and
  \<^verbatim>\<open>self._error(field, value, message)\<close> appends an issue with that field to the
  errors. \<open>IssueCollector\<close> is a new, empty collector.
\<close>

record ('f, 'd, 'o) issue =
  field :: string
  val :: "('f, 'd, 'o) pyval"
  message :: string

record ('f, 'd, 'o) issue_collector =
  errors :: "('f, 'd, 'o) issue list"
  warnings :: "('f, 'd, 'o) issue list"
  infos :: "('f, 'd, 'o) issue list"

text \<open>
  Modelled from the spec: \<^verbatim>\<open>_ConfigChecker._error\<close> (missing), appending to the
  errors of the collector.
\<close>

definition error_issue ::
  "string \<Rightarrow> ('f, 'd, 'o) pyval \<Rightarrow> string \<Rightarrow> ('f, 'd, 'o) issue_collector \<Rightarrow> ('f, 'd, 'o) issue_collector" where
  "error_issue f v m col = col\<lparr>errors := errors col @ [\<lparr>field = f, val = v, message = m\<rparr>]\<rparr>"
definition IssueCollector :: "('f, 'd, 'o) issue_collector" where
  "IssueCollector = \<lparr>errors = [], warnings = [], infos = []\<rparr>"

subsection \<open>The checker\<close>

text \<open>
  The checker mutates the collector and may raise (when a property cannot be read); a
  check therefore returns the exception, if any, together with the collector as it is
  then. The three checks follow \<^verbatim>\<open>_check_port\<close>, \<^verbatim>\<open>_check_host\<close> and
  \<^verbatim>\<open>_check_https_settings\<close>; \<open>check\<close> is \<^verbatim>\<open>_RestConfigChecker._check\<close>, which
  looks the section up under the name \<^verbatim>\<open>"REST"\<close>.
\<close>

type_synonym ('f, 'd, 'o) checked = "error option \<times> ('f, 'd, 'o) issue_collector"

definition check_port ::
  "('f, 'd, 'o) template_handler \<Rightarrow> ('f, 'd, 'o) rest_config \<Rightarrow>
     ('f, 'd, 'o) issue_collector \<Rightarrow> ('f, 'd, 'o) checked" where
  "check_port th rest_config col =
     (case port th rest_config of
        Inl e \<Rightarrow> (Some e, col)
      | Inr p \<Rightarrow>
          (case as_int p of
             None \<Rightarrow> (None, error_issue ''port'' p
               ''The port of the RestConfig must be an integer between 1 and 65535.'' col)
           | Some i \<Rightarrow>
               if \<not> (1 \<le> i \<and> i \<le> 65535)
               then (None, error_issue ''port'' p
                 ''The port of the RestConfig must be an integer between 1 and 65535.'' col)
               else (None, col)))"

definition check_host ::
  "('f, 'd, 'o) template_handler \<Rightarrow> ('f, 'd, 'o) rest_config \<Rightarrow>
     ('f, 'd, 'o) issue_collector \<Rightarrow> ('f, 'd, 'o) checked" where
  "check_host th rest_config col =
     (case host th rest_config of
        Inl e \<Rightarrow> (Some e, col)
      | Inr h \<Rightarrow>
          (case as_str h of
             None \<Rightarrow> (None, error_issue ''host'' h
               ''The host of the RestConfig must be a non-empty string.'' col)
           | Some s \<Rightarrow>
               if s = []
               then (None, error_issue ''host'' h
                 ''The host of the RestConfig must be a non-empty string.'' col)
               else (None, col)))"

definition check_https_settings ::
  "('f, 'd, 'o) template_handler \<Rightarrow> ('f, 'd, 'o) builtins \<Rightarrow>
     ('f, 'd, 'o) rest_config \<Rightarrow> ('f, 'd, 'o) issue_collector \<Rightarrow>
     ('f, 'd, 'o) checked" where
  "check_https_settings th bi rest_config col =
     (case use_https th rest_config of
        Inl e \<Rightarrow> (Some e, col)
      | Inr u \<Rightarrow>
          if truthy bi u then
            (case ssl_cert th rest_config of
               Inl e \<Rightarrow> (Some e, col)
             | Inr c \<Rightarrow>
                 (let col1 =
                    (if \<not> truthy bi c
                     then error_issue ''ssl_cert'' c
                       ''When HTTPS is enabled in the RestConfig ssl_cert must be set.'' col
                     else if as_str c = None
                     then error_issue ''ssl_cert'' c
                       ''The ssl_cert of the RestConfig must be valid string.'' col
                     else col)
                  in case ssl_key th rest_config of
                       Inl e \<Rightarrow> (Some e, col1)
                     | Inr k \<Rightarrow>
                         if \<not> truthy bi k
                         then (None, error_issue ''ssl_key'' k
                           ''When HTTPS is enabled in the RestConfig ssl_key must be set.'' col1)
                         else if as_str k = None
                         then (None, error_issue ''ssl_key'' k
                           ''The ssl_key of the RestConfig must be valid string.'' col1)
                         else (None, col1)))
          else (None, col))"

text \<open>
  Of a configuration only the unique sections matter here, and of those only the REST
  section; \<open>rest_only rc\<close> is a configuration whose REST section is \<open>rc\<close>.
\<close>

record ('f, 'd, 'o) config =
  unique_sections :: "string \<rightharpoonup> ('f, 'd, 'o) rest_config"

definition check ::
  "('f, 'd, 'o) template_handler \<Rightarrow> ('f, 'd, 'o) builtins \<Rightarrow>
     ('f, 'd, 'o) config \<Rightarrow> ('f, 'd, 'o) issue_collector \<Rightarrow>
     ('f, 'd, 'o) checked" where
  "check th bi cfg col =
     (case unique_sections cfg ''REST'' of
        None \<Rightarrow> (None, col)
      | Some rest_config \<Rightarrow>
          (case check_port th rest_config col of
             (Some e, col1) \<Rightarrow> (Some e, col1)
           | (None, col1) \<Rightarrow>
               (case check_host th rest_config col1 of
                  (Some e, col2) \<Rightarrow> (Some e, col2)
                | (None, col2) \<Rightarrow> check_https_settings th bi rest_config col2)))"
definition rest_only :: "('f, 'd, 'o) rest_config \<Rightarrow> ('f, 'd, 'o) config" where
  "rest_only rc = \<lparr>unique_sections = [''REST'' \<mapsto> rc]\<rparr>"

text \<open>
  \<open>reported col res\<close> lists the fields of the errors that a check with result
  \<open>res\<close> has added to the collector \<open>col\<close> it started from.
\<close>

definition reported ::
  "('f, 'd, 'o) issue_collector \<Rightarrow> ('f, 'd, 'o) checked \<Rightarrow> string list" where
  "reported col res = map field (drop (length (errors col)) (errors (snd res)))"

subsection \<open>Conversion to and from a dictionary\<close>

text \<open>
  \<^verbatim>\<open>_to_dict\<close> and \<^verbatim>\<open>_from_dict\<close>, on dictionaries as maps. \<open>pop d key dflt\<close> is
  \<^verbatim>\<open>d.pop(key, dflt)\<close>: the value and the dictionary without the key.

  \<open>RestConfig\<close> is the constructor. Its extra keyword arguments \<^verbatim>\<open>**properties\<close>
  cannot hold the name of a parameter of \<^verbatim>\<open>__init__\<close> (\<^verbatim>\<open>self\<close> or one of the five
  fields): Python raises \<^verbatim>\<open>TypeError\<close> for a call that gives an argument twice. The
  constructor of the base class, \<^verbatim>\<open>super().__init__(**properties)\<close>, is not among
  the sources and is the parameter \<open>section_init\<close>: what it stores as
  \<^verbatim>\<open>_properties\<close>, or the exception it raises.
\<close>

definition to_dict ::
  "('f, 'd, 'o) rest_config \<Rightarrow> (string \<rightharpoonup> ('f, 'd, 'o) pyval)" where
  "to_dict self =
     (let as_dict =
        (\<lambda>key. case map_of [(''port'', raw_port self), (''host'', raw_host self),
                     (''use_https'', raw_use_https self), (''ssl_cert'', raw_ssl_cert self),
                     (''ssl_key'', raw_ssl_key self)] key of
                  Some v \<Rightarrow> if v \<noteq> PNone then Some v else None
                | None \<Rightarrow> None)
      in as_dict ++ properties self)"

definition pop ::
  "(string \<rightharpoonup> 'v) \<Rightarrow> string \<Rightarrow> 'v \<Rightarrow> 'v \<times> (string \<rightharpoonup> 'v)" where
  "pop d key dflt = (case d key of None \<Rightarrow> dflt | Some v \<Rightarrow> v, d(key := None))"

definition RestConfig ::
  "((string \<rightharpoonup> ('f, 'd, 'o) pyval) \<Rightarrow>
     error + (string \<rightharpoonup> ('f, 'd, 'o) pyval)) \<Rightarrow>
   ('f, 'd, 'o) pyval \<Rightarrow> ('f, 'd, 'o) pyval \<Rightarrow> ('f, 'd, 'o) pyval \<Rightarrow> ('f, 'd, 'o) pyval \<Rightarrow>
   ('f, 'd, 'o) pyval \<Rightarrow> (string \<rightharpoonup> ('f, 'd, 'o) pyval) \<Rightarrow> error + ('f, 'd, 'o) rest_config" where
  "RestConfig section_init port' host' use_https' ssl_cert' ssl_key' kwargs =
     (if list_ex (\<lambda>name. kwargs name \<noteq> None)
           [''self'', ''port'', ''host'', ''use_https'', ''ssl_cert'', ''ssl_key'']
      then Inl (TypeError ''__init__() got multiple values for argument'')
      else case section_init kwargs of
             Inl e \<Rightarrow> Inl e
           | Inr props \<Rightarrow>
               Inr \<lparr>raw_port = port', raw_host = host', raw_use_https = use_https',
                    raw_ssl_cert = ssl_cert', raw_ssl_key = ssl_key', properties = props\<rparr>)"

definition from_dict ::
  "((string \<rightharpoonup> ('f, 'd, 'o) pyval) \<Rightarrow>
     error + (string \<rightharpoonup> ('f, 'd, 'o) pyval)) \<Rightarrow>
   (string \<rightharpoonup> ('f, 'd, 'o) pyval) \<Rightarrow> error + ('f, 'd, 'o) rest_config" where
  "from_dict section_init as_dict =
     (let (port', d1) = pop as_dict ''port'' PNone;
          (host', d2) = pop d1 ''host'' PNone;
          (use_https', d3) = pop d2 ''use_https'' PNone;
          (ssl_cert', d4) = pop d3 ''ssl_cert'' PNone;
          (ssl_key', d5) = pop d4 ''ssl_key'' PNone
      in RestConfig section_init port' host' use_https' ssl_cert' ssl_key' d5)"

text \<open>
  Modelled from the spec: the constructor of \<^verbatim>\<open>UniqueSection\<close> and \<^verbatim>\<open>Section\<close>
  (missing), as the methods of \<^verbatim>\<open>RestConfig\<close> use it: the keyword arguments become
  the dictionary \<^verbatim>\<open>_properties\<close>.
\<close>

definition Section_init ::
  "(string \<rightharpoonup> ('f, 'd, 'o) pyval) \<Rightarrow>
     error + (string \<rightharpoonup> ('f, 'd, 'o) pyval)" where
  "Section_init kwargs = Inr kwargs"

section \<open>The markdown factory\<close>

text \<open>
  \<^verbatim>\<open>_MarkdownFactory.create_element\<close>. The base class \<^verbatim>\<open>_Factory\<close> is not among
  the sources: its regular expression \<^verbatim>\<open>_PROPERTY_RE\<close> (through \<^verbatim>\<open>findall\<close>, a
  list of name and value pairs) and its static method \<^verbatim>\<open>call_builder\<close> (which
  returns \<^verbatim>\<open>None\<close> or what the builder made, or raises) are the two fields of the
  record \<open>factory\<close>. The dictionary comprehension keeps, for a name that occurs twice,
  the last value. \<open>no_builders\<close> is a factory that knows no element type.
\<close>

record ('g, 'b) factory =
  PROPERTY_RE_findall :: "string \<Rightarrow> (string \<times> string) list"
  call_builder :: "'g \<Rightarrow> string \<Rightarrow> (string \<rightharpoonup> string) \<Rightarrow> error + 'b option"

datatype 'b element = Built 'b | Markup string

definition create_element ::
  "('g, 'b) factory \<Rightarrow> 'g \<Rightarrow> string \<Rightarrow> string \<Rightarrow>
     error + 'b element" where
  "create_element fac gui element_type all_properties =
     (let property_pairs = PROPERTY_RE_findall fac all_properties;
          properties = map_of (rev property_pairs)
      in case call_builder fac gui element_type properties of
           Inl e \<Rightarrow> Inl e
         | Inr None \<Rightarrow>
             Inr (Markup (''<|UNKNOWN ELEMENT TYPE '' @ [CHR 0x27] @ element_type @ [CHR 0x27] @
                    ''|>''))
         | Inr (Some builder_md) \<Rightarrow> Inr (Built builder_md))"

definition no_builders :: "(unit, unit) factory" where
  "no_builders = \<lparr>PROPERTY_RE_findall = (\<lambda>_. []), call_builder = (\<lambda>_ _ _. Inr None)\<rparr>"

section \<open>Properties of the serializer\<close>

subsection \<open>Floor division and remainder on whole microseconds\<close>






subsection \<open>Tagged strings\<close>


subsection \<open>Plain strings\<close>

text \<open>
  C10. For every Python str value \<open>s\<close>, \<^verbatim>\<open>_stringify(s)\<close> returns \<open>s\<close> itself,
  unchanged: a plain string gets no type tag.
\<close>

theorem stringify_str_unchanged: "stringify bi (PStr s) = PStr s"
  by simp

section \<open>Properties of the deserializer\<close>

subsection \<open>Where the type pattern splits\<close>

lemma split_no_colon:
  "CHR '':'' \<notin> set cs \<Longrightarrow> type_pattern_split types pre cs = None"
  by (induction cs arbitrary: pre) auto

lemma split_tagged:
  assumes "CHR '':'' \<notin> set ty" and "pre @ body \<noteq> []" and "newline \<notin> set (pre @ body)"
    and "ty = [] \<or> type_alternative types ty"
  shows "type_pattern_split types pre (body @ CHR '':'' # ty) =
           Some (pre @ body, if ty = [] then None else Some ty)"
  using assms
proof (induction body arbitrary: pre)
  case Nil
  then show ?case by (simp add: split_no_colon)
next
  case (Cons b body)
  have "type_pattern_split types (pre @ [b]) (body @ CHR '':'' # ty) =
          Some ((pre @ [b]) @ body, if ty = [] then None else Some ty)"
    by (rule Cons.IH) (use Cons.prems in auto)
  then show ?case by simp
qed

lemma fullmatch_tagged:
  assumes "CHR '':'' \<notin> set ty" and "body \<noteq> []" and "newline \<notin> set body"
    and "ty = [] \<or> type_alternative types ty"
  shows "TYPE_PATTERN_fullmatch types (body @ CHR '':'' # ty) =
           Some (body, if ty = [] then None else Some ty)"
  unfolding TYPE_PATTERN_fullmatch_def
  using split_tagged [of ty "[]" body types] assms by simp

subsection \<open>A colon with nothing after it\<close>

text \<open>
  C8, as amended. For every non-empty string \<open>p\<close> without a newline character such that
  \<open>p\<close> followed by a colon does not match the template pattern,
  \<^verbatim>\<open>_pythonify(p + ":")\<close> raises \<^verbatim>\<open>LoadingError\<close>: the type pattern matches with an
  empty type, \<^verbatim>\<open>dynamic_type\<close> is \<^verbatim>\<open>None\<close>, and the branch for an unsupported type
  is taken.
\<close>

theorem pythonify_empty_type_raises:
  assumes "p \<noteq> []" and "newline \<notin> set p" and "\<not> template_match th (PStr (p @ '':''))"
  shows "pythonify th st (PStr (p @ '':'')) =
           Inl (LoadingError (''Error loading toml configuration at '' @ p @ '':'' @
                  ''. None type is not supported.''))"
proof -
  have "TYPE_PATTERN_fullmatch (SERIALIZABLE_TYPES st) (p @ CHR '':'' # []) = Some (p, None)"
    using fullmatch_tagged [of "[]" p "SERIALIZABLE_TYPES st"] assms by simp
  then show ?thesis
    using assms(3) by (simp add: convert_def none_str_def)
qed

theorem pythonify_empty_type_raises_witness:
  "''x'' \<noteq> [] \<and> newline \<notin> set ''x'' \<and>
   \<not> template_match (env_handler bare_library) (PStr (''x'' @ '':'')) \<and>
   pythonify (env_handler bare_library) BaseSerializer (PStr (''x'' @ '':'')) =
     Inl (LoadingError (''Error loading toml configuration at '' @ ''x'' @ '':'' @
            ''. None type is not supported.''))"
proof -
  have 1: "''x'' \<noteq> []" by simp
  have 2: "newline \<notin> set ''x''" by (simp add: newline_def)
  have 3: "\<not> template_match (env_handler bare_library) (PStr (''x'' @ '':''))"
    by (simp add: env_handler_def PATTERN_fullmatch_def)
  show ?thesis
    using 1 2 3 pythonify_empty_type_raises [OF 1 2 3, of BaseSerializer] by blast
qed

text \<open>
  The claim as first stated, for every non-empty \<open>p\<close> that is no template, fails when
  \<open>p\<close> has a newline: the type pattern does not match, and the string comes back
  unchanged.
\<close>

theorem pythonify_newline_counterexample:
  "[CHR ''a'', CHR 0x0A, CHR ''b''] \<noteq> [] \<and>
   \<not> template_match (env_handler bare_library) (PStr [CHR ''a'', CHR 0x0A, CHR ''b'']) \<and>
   \<not> template_match (env_handler bare_library)
        (PStr ([CHR ''a'', CHR 0x0A, CHR ''b''] @ '':'')) \<and>
   pythonify (env_handler bare_library) BaseSerializer
     (PStr ([CHR ''a'', CHR 0x0A, CHR ''b''] @ '':'')) =
     Inr (PStr ([CHR ''a'', CHR 0x0A, CHR ''b''] @ '':''))"
  by (simp add: env_handler_def PATTERN_fullmatch_def TYPE_PATTERN_fullmatch_def newline_def)

subsection \<open>Renderings are non-empty and have no newline\<close>

lemma digit_char_not_newline: "d < 10 \<Longrightarrow> digit_char d \<noteq> newline"
proof
  assume "d < 10" and "digit_char d = newline"
  then have "(of_char (digit_char d) :: nat) = of_char newline" by simp
  with \<open>d < 10\<close> show False by (simp add: digit_char_def newline_def)
qed

lemma str_nat_no_newline: "newline \<notin> set (str_nat n)"
proof (induction n rule: str_nat.induct)
  case (1 n)
  show ?case
  proof (cases "n < 10")
    case True
    then show ?thesis using digit_char_not_newline [of n] by (simp add: str_nat.simps [of n])
  next
    case False
    then show ?thesis
      using 1 digit_char_not_newline [of "n mod 10"] by (simp add: str_nat.simps [of n])
  qed
qed

lemma str_nat_nonempty: "str_nat n \<noteq> []"
  by (simp add: str_nat.simps [of n])

lemma str_int_nonempty: "str_int i \<noteq> []"
  by (simp add: str_int_def str_nat_nonempty)

lemma str_int_no_newline: "newline \<notin> set (str_int i)"
  by (simp add: str_int_def str_nat_no_newline) (simp add: newline_def)

lemma str_bool_plain: "str_bool b \<noteq> [] \<and> newline \<notin> set (str_bool b)"
  by (simp add: str_bool_def newline_def)

lemma timedelta_to_str_plain:
  "timedelta_to_str td \<noteq> [] \<and> newline \<notin> set (timedelta_to_str td)"
  by (simp add: timedelta_to_str_def Let_def str_int_nonempty str_int_no_newline)
    (simp add: newline_def)

subsection \<open>Serializing and deserializing a scalar\<close>

lemma scalar_type_alternative:
  assumes "ty \<in> set [''bool'', ''int'', ''float'', ''datetime'', ''timedelta'']"
    and "ty \<in> set types"
  shows "CHR '':'' \<notin> set ty \<and> type_alternative types ty"
  using assms by (auto simp: type_alternative_def is_word_char_def)

lemma pythonify_tagged:
  assumes ty: "ty \<in> set [''bool'', ''int'', ''float'', ''datetime'', ''timedelta'']"
    and known: "ty \<in> set (SERIALIZABLE_TYPES st)"
    and unreg: "registered_types st ty = None"
    and r: "r \<noteq> []" "newline \<notin> set r"
    and tm: "\<not> template_match th (PStr (r @ CHR '':'' # ty))"
  shows "pythonify th st (PStr (r @ CHR '':'' # ty)) =
           convert th st (r @ CHR '':'' # ty) r (Some ty)"
proof -
  have "TYPE_PATTERN_fullmatch (SERIALIZABLE_TYPES st) (r @ CHR '':'' # ty) =
          Some (r, if ty = [] then None else Some ty)"
    using scalar_type_alternative [OF ty known] r by (intro fullmatch_tagged) auto
  moreover have "ty \<noteq> []" using ty by auto
  ultimately show ?thesis using tm by simp
qed

text \<open>
  C1, as amended. Let \<open>v\<close> be a bool, int, float, datetime, timedelta or str value
  whose serialized form does not match the template pattern, and let the five type names
  be serializable and not taken over by a registered type. If \<open>v\<close> is a str that does
  not match the type pattern, or \<open>v\<close> is of one of the five tagged types and the
  converter of its type maps the rendering of \<open>v\<close> back to \<open>v\<close> (for a float or a
  datetime the rendering being non-empty and free of newlines), then
  \<^verbatim>\<open>_pythonify(_stringify(v)) == v\<close>.
\<close>

theorem pythonify_stringify_roundtrip:
  assumes st: "\<forall>ty \<in> set [''bool'', ''int'', ''float'', ''datetime'', ''timedelta''].
                 ty \<in> set (SERIALIZABLE_TYPES st) \<and> registered_types st ty = None"
    and tm: "\<not> template_match th (stringify bi v)"
    and inv: "case v of
                PBool b \<Rightarrow> to_bool th (str_bool b) = Inr v
              | PInt i \<Rightarrow> to_int th (str_int i) = Inr v
              | PFloat x \<Rightarrow> float_str bi x \<noteq> [] \<and> newline \<notin> set (float_str bi x) \<and>
                  to_float th (float_str bi x) = Inr v
              | PDatetime d \<Rightarrow> datetime_isoformat bi d \<noteq> [] \<and>
                  newline \<notin> set (datetime_isoformat bi d) \<and>
                  to_datetime th (datetime_isoformat bi d) = Inr v
              | PTimedelta td \<Rightarrow> to_timedelta th (timedelta_to_str td) = Inr v
              | PStr s \<Rightarrow> TYPE_PATTERN_fullmatch (SERIALIZABLE_TYPES st) s = None
              | _ \<Rightarrow> False"
  shows "pythonify th st (stringify bi v) = Inr v"
proof (cases v)
  case (PBool b)
  have "pythonify th st (PStr (str_bool b @ CHR '':'' # ''bool'')) =
          convert th st (str_bool b @ CHR '':'' # ''bool'') (str_bool b) (Some ''bool'')"
    using st tm PBool str_bool_plain [of b] by (intro pythonify_tagged) auto
  then show ?thesis using st inv PBool by (simp add: convert_def)
next
  case (PInt i)
  have "pythonify th st (PStr (str_int i @ CHR '':'' # ''int'')) =
          convert th st (str_int i @ CHR '':'' # ''int'') (str_int i) (Some ''int'')"
    using st tm PInt str_int_nonempty [of i] str_int_no_newline [of i]
    by (intro pythonify_tagged) auto
  then show ?thesis using st inv PInt by (simp add: convert_def)
next
  case (PFloat x)
  have "pythonify th st (PStr (float_str bi x @ CHR '':'' # ''float'')) =
          convert th st (float_str bi x @ CHR '':'' # ''float'') (float_str bi x) (Some ''float'')"
    using st tm inv PFloat by (intro pythonify_tagged) auto
  then show ?thesis using st inv PFloat by (simp add: convert_def)
next
  case (PDatetime d)
  have "pythonify th st (PStr (datetime_isoformat bi d @ CHR '':'' # ''datetime'')) =
          convert th st (datetime_isoformat bi d @ CHR '':'' # ''datetime'')
            (datetime_isoformat bi d) (Some ''datetime'')"
    using st tm inv PDatetime by (intro pythonify_tagged) auto
  then show ?thesis using st inv PDatetime by (simp add: convert_def)
next
  case (PTimedelta td)
  have "pythonify th st (PStr (timedelta_to_str td @ CHR '':'' # ''timedelta'')) =
          convert th st (timedelta_to_str td @ CHR '':'' # ''timedelta'')
            (timedelta_to_str td) (Some ''timedelta'')"
    using st tm PTimedelta timedelta_to_str_plain [of td] by (intro pythonify_tagged) auto
  then show ?thesis using st inv PTimedelta by (simp add: convert_def)
next
  case (PStr s)
  then show ?thesis using tm inv by simp
qed (use inv in simp_all)

theorem pythonify_stringify_roundtrip_witness:
  "pythonify (env_handler bare_library) BaseSerializer (stringify bare_builtins (PInt 42)) =
     Inr (PInt 42)"
proof -
  have 1: "\<forall>ty \<in> set [''bool'', ''int'', ''float'', ''datetime'', ''timedelta''].
             ty \<in> set (SERIALIZABLE_TYPES (BaseSerializer :: (unit, unit, unit) serializer)) \<and>
             registered_types (BaseSerializer :: (unit, unit, unit) serializer) ty = None"
    by (simp add: BaseSerializer_def)
  have s: "str_int 42 = ''42''"
    by code_simp
  have 2: "\<not> template_match (env_handler bare_library) (stringify bare_builtins (PInt 42))"
    by (simp add: s env_handler_def PATTERN_fullmatch_def)
  have 3: "case (PInt 42 :: (unit, unit, unit) pyval) of
             PBool b \<Rightarrow> to_bool (env_handler bare_library) (str_bool b) = Inr (PInt 42)
           | PInt i \<Rightarrow> to_int (env_handler bare_library) (str_int i) = Inr (PInt 42)
           | PFloat x \<Rightarrow> float_str bare_builtins x \<noteq> [] \<and>
               newline \<notin> set (float_str bare_builtins x) \<and>
               to_float (env_handler bare_library) (float_str bare_builtins x) = Inr (PInt 42)
           | PDatetime d \<Rightarrow> datetime_isoformat bare_builtins d \<noteq> [] \<and>
               newline \<notin> set (datetime_isoformat bare_builtins d) \<and>
               to_datetime (env_handler bare_library) (datetime_isoformat bare_builtins d) =
                 Inr (PInt 42)
           | PTimedelta td \<Rightarrow>
               to_timedelta (env_handler bare_library) (timedelta_to_str td) = Inr (PInt 42)
           | PStr s \<Rightarrow>
               TYPE_PATTERN_fullmatch
                 (SERIALIZABLE_TYPES (BaseSerializer :: (unit, unit, unit) serializer)) s = None
           | _ \<Rightarrow> False"
    by (simp add: s env_handler_def env_to_int_def parse_int_def parse_nat_def
        is_digit_char_def digit_val_def)
  show ?thesis by (rule pythonify_stringify_roundtrip [OF 1 2 3])
qed

text \<open>
  The claim as first stated, for every str value, fails at a string that ends in a colon
  and a type name: \<^verbatim>\<open>_stringify\<close> leaves it alone, and \<^verbatim>\<open>_pythonify\<close> takes the
  ending for a tag and drops it.
\<close>

theorem pythonify_stringify_str_counterexample:
  "pythonify (env_handler bare_library) BaseSerializer (stringify bare_builtins (PStr ''x:str'')) =
     Inr (PStr ''x'') \<and>
   pythonify (env_handler bare_library) BaseSerializer (stringify bare_builtins (PStr ''x:str'')) \<noteq>
     Inr (PStr ''x:str'')"
  by (simp add: env_handler_def PATTERN_fullmatch_def TYPE_PATTERN_fullmatch_def
      BaseSerializer_def type_alternative_def is_word_char_def newline_def convert_def)

subsection \<open>The example handler inverts the rendering of booleans and integers\<close>

text \<open>
  The conditions of the round trip are met by every bool and every int when the
  converters are those of \<open>env_handler\<close>: the rendering parses back to the value, and
  it starts with a letter of \<^verbatim>\<open>True\<close> or \<^verbatim>\<open>False\<close>, a digit or a minus sign, so
  it is no template.
\<close>

lemma digit_char_props:
  assumes "d < 10"
  shows "is_digit_char (digit_char d)" and "digit_val (digit_char d) = d"
    and "digit_char d \<noteq> CHR ''-''" and "digit_char d \<noteq> CHR ''+''"
    and "digit_char d \<noteq> CHR ''E''"
proof -
  have v: "(of_char (digit_char d) :: nat) = 48 + d"
    using assms by (simp add: digit_char_def)
  show "is_digit_char (digit_char d)" using assms by (simp add: is_digit_char_def v)
  show "digit_val (digit_char d) = d" by (simp add: digit_val_def v)
  show "digit_char d \<noteq> CHR ''-''"
  proof
    assume "digit_char d = CHR ''-''"
    then have "(of_char (digit_char d) :: nat) = of_char CHR ''-''" by simp
    then show False unfolding v by simp
  qed
  show "digit_char d \<noteq> CHR ''+''"
  proof
    assume "digit_char d = CHR ''+''"
    then have "(of_char (digit_char d) :: nat) = of_char CHR ''+''" by simp
    then show False unfolding v by simp
  qed
  show "digit_char d \<noteq> CHR ''E''"
  proof
    assume "digit_char d = CHR ''E''"
    then have "(of_char (digit_char d) :: nat) = of_char CHR ''E''" by simp
    then show False unfolding v using assms by simp
  qed
qed

lemma str_nat_all_digits: "list_all is_digit_char (str_nat n)"
proof (induction n rule: str_nat.induct)
  case (1 n)
  show ?case
  proof (cases "n < 10")
    case True
    then show ?thesis by (simp add: str_nat.simps [of n] digit_char_props(1))
  next
    case False
    then show ?thesis using 1 by (simp add: str_nat.simps [of n] digit_char_props(1))
  qed
qed

lemma str_nat_value: "foldl (\<lambda>a c. 10 * a + digit_val c) 0 (str_nat n) = n"
proof (induction n rule: str_nat.induct)
  case (1 n)
  show ?case
  proof (cases "n < 10")
    case True
    then show ?thesis by (simp add: str_nat.simps [of n] digit_char_props(2))
  next
    case False
    then show ?thesis using 1 by (simp add: str_nat.simps [of n] digit_char_props(2))
  qed
qed

lemma parse_nat_str_nat: "parse_nat (str_nat n) = Some n"
  by (simp add: parse_nat_def str_nat_nonempty str_nat_all_digits str_nat_value)

lemma str_nat_head: "\<exists>c cs. str_nat n = c # cs \<and> is_digit_char c"
  using str_nat_nonempty [of n] str_nat_all_digits [of n] by (cases "str_nat n") auto

lemma is_digit_char_not_sign:
  "is_digit_char c \<Longrightarrow> c \<noteq> CHR ''-'' \<and> c \<noteq> CHR ''+'' \<and> c \<noteq> CHR ''E''"
  by (auto simp: is_digit_char_def)

lemma parse_int_str_int: "parse_int (str_int i) = Some i"
proof (cases "i < 0")
  case True
  then show ?thesis by (simp add: parse_int_def str_int_def parse_nat_str_nat)
next
  case False
  obtain c cs where s: "str_nat (nat i) = c # cs" and d: "is_digit_char c"
    using str_nat_head by blast
  have "parse_int (c # cs) = map_option int (parse_nat (c # cs))"
    using is_digit_char_not_sign [OF d] by (simp add: parse_int_def)
  then show ?thesis using False parse_nat_str_nat [of "nat i"] by (simp add: str_int_def s)
qed

lemma env_to_int_str_int: "env_to_int (str_int i) = Inr (PInt i)"
  by (simp add: env_to_int_def parse_int_str_int)

lemma lower_bool: "map lower_char ''True'' = ''true''" "map lower_char ''False'' = ''false''"
  by code_simp+

lemma env_to_bool_literals:
  "env_to_bool ''True'' = Inr (PBool True)" "env_to_bool ''False'' = Inr (PBool False)"
  unfolding env_to_bool_def lower_bool by simp_all

lemma env_to_bool_str_bool: "env_to_bool (str_bool b) = Inr (PBool b)"
  by (cases b) (simp_all only: str_bool_def if_True if_False env_to_bool_literals)

lemma str_int_no_template: "PATTERN_fullmatch (str_int i @ rest) = None"
proof (cases "i < 0")
  case True
  then show ?thesis by (simp add: PATTERN_fullmatch_def str_int_def)
next
  case False
  obtain c cs where s: "str_nat (nat i) = c # cs" and d: "is_digit_char c"
    using str_nat_head by blast
  show ?thesis
    using False is_digit_char_not_sign [OF d] by (simp add: PATTERN_fullmatch_def str_int_def s)
qed

lemma str_bool_no_template: "PATTERN_fullmatch (str_bool b @ rest) = None"
  by (cases b) (simp_all add: PATTERN_fullmatch_def str_bool_def)


lemma env_handler_roundtrip:
  assumes "v = PBool b \<or> v = PInt i"
  shows "pythonify (env_handler lib) BaseSerializer (stringify bi v) = Inr v"
proof -
  have ty: "''bool'' \<in> set (SERIALIZABLE_TYPES (BaseSerializer :: ('a, 'b, 'c) serializer))"
    "''int'' \<in> set (SERIALIZABLE_TYPES (BaseSerializer :: ('a, 'b, 'c) serializer))"
    "registered_types (BaseSerializer :: ('a, 'b, 'c) serializer) ''bool'' = None"
    "registered_types (BaseSerializer :: ('a, 'b, 'c) serializer) ''int'' = None"
    by (simp_all add: BaseSerializer_def)
  from assms show ?thesis
  proof
    assume v: "v = PBool b"
    have "pythonify (env_handler lib) BaseSerializer (PStr (str_bool b @ CHR '':'' # ''bool'')) =
            convert (env_handler lib) BaseSerializer (str_bool b @ CHR '':'' # ''bool'')
              (str_bool b) (Some ''bool'')"
      using ty str_bool_plain [of b] str_bool_no_template [of b "'':bool''"]
      by (intro pythonify_tagged) (simp_all add: env_handler_def)
    then show ?thesis
      using ty by (simp add: v convert_def env_handler_def env_to_bool_str_bool)
  next
    assume v: "v = PInt i"
    have "pythonify (env_handler lib) BaseSerializer (PStr (str_int i @ CHR '':'' # ''int'')) =
            convert (env_handler lib) BaseSerializer (str_int i @ CHR '':'' # ''int'')
              (str_int i) (Some ''int'')"
      using ty str_int_nonempty [of i] str_int_no_newline [of i]
        str_int_no_template [of i "'':int''"]
      by (intro pythonify_tagged) (simp_all add: env_handler_def)
    then show ?thesis
      using ty by (simp add: v convert_def env_handler_def env_to_int_str_int)
  qed
qed

section \<open>Properties of the REST configuration checker\<close>

subsection \<open>What a check adds to the collector\<close>

lemma errors_error_issue [simp]:
  "errors (error_issue f v m col) = errors col @ [\<lparr>field = f, val = v, message = m\<rparr>]"
  by (simp add: error_issue_def)

lemma check_port_errors:
  "\<exists>new. errors (snd (check_port th rc col)) = errors col @ new \<and>
     map field new = (case port th rc of Inl e \<Rightarrow> []
        | Inr p \<Rightarrow> (case as_int p of None \<Rightarrow> [''port'']
            | Some i \<Rightarrow> if 1 \<le> i \<and> i \<le> 65535 then [] else [''port'']))"
  by (auto simp: check_port_def split: sum.splits option.splits)

lemma check_host_errors:
  "\<exists>new. errors (snd (check_host th rc col)) = errors col @ new \<and>
     map field new = (case host th rc of Inl e \<Rightarrow> []
        | Inr h \<Rightarrow> (case as_str h of None \<Rightarrow> [''host'']
            | Some s \<Rightarrow> if s = [] then [''host''] else []))"
  by (auto simp: check_host_def split: sum.splits option.splits)


lemma check_https_errors:
  "\<exists>new. errors (snd (check_https_settings th bi rc col)) = errors col @ new \<and>
     map field new =
       (case use_https th rc of Inl e \<Rightarrow> []
        | Inr u \<Rightarrow> if truthy bi u then
            (case ssl_cert th rc of Inl e \<Rightarrow> []
             | Inr c \<Rightarrow> (if \<not> truthy bi c \<or> as_str c = None then [''ssl_cert''] else []) @
                 (case ssl_key th rc of Inl e \<Rightarrow> []
                  | Inr k \<Rightarrow> if \<not> truthy bi k \<or> as_str k = None then [''ssl_key''] else []))
          else [])"
  by (auto simp: check_https_settings_def Let_def split: sum.splits option.splits)

lemma check_port_raises:
  "fst (check_port th rc col) = (case port th rc of Inl e \<Rightarrow> Some e | Inr p \<Rightarrow> None)"
  by (auto simp: check_port_def split: sum.splits option.splits)

lemma check_host_raises:
  "fst (check_host th rc col) = (case host th rc of Inl e \<Rightarrow> Some e | Inr p \<Rightarrow> None)"
  by (auto simp: check_host_def split: sum.splits option.splits)

lemma check_reported:
  assumes "unique_sections cfg ''REST'' = Some rc"
  shows "reported col (check th bi cfg col) =
     (case port th rc of Inl e \<Rightarrow> []
      | Inr p \<Rightarrow>
         (case as_int p of None \<Rightarrow> [''port'']
          | Some i \<Rightarrow> if 1 \<le> i \<and> i \<le> 65535 then [] else [''port'']) @
         (case host th rc of Inl e \<Rightarrow> []
          | Inr h \<Rightarrow>
             (case as_str h of None \<Rightarrow> [''host'']
              | Some s \<Rightarrow> if s = [] then [''host''] else []) @
             (case use_https th rc of Inl e \<Rightarrow> []
              | Inr u \<Rightarrow> if truthy bi u then
                  (case ssl_cert th rc of Inl e \<Rightarrow> []
                   | Inr c \<Rightarrow> (if \<not> truthy bi c \<or> as_str c = None then [''ssl_cert''] else []) @
                       (case ssl_key th rc of Inl e \<Rightarrow> []
                        | Inr k \<Rightarrow> if \<not> truthy bi k \<or> as_str k = None then [''ssl_key''] else []))
                else [])))"
proof -
  obtain e1 c1 where r1: "check_port th rc col = (e1, c1)" by (cases "check_port th rc col")
  obtain n1 where n1: "errors c1 = errors col @ n1"
    "map field n1 = (case port th rc of Inl e \<Rightarrow> []
        | Inr p \<Rightarrow> (case as_int p of None \<Rightarrow> [''port'']
            | Some i \<Rightarrow> if 1 \<le> i \<and> i \<le> 65535 then [] else [''port'']))"
    using check_port_errors [of th rc col] r1 by auto
  have e1: "e1 = (case port th rc of Inl e \<Rightarrow> Some e | Inr p \<Rightarrow> None)"
    using check_port_raises [of th rc col] r1 by simp
  obtain e2 c2 where r2: "check_host th rc c1 = (e2, c2)" by (cases "check_host th rc c1")
  obtain n2 where n2: "errors c2 = errors c1 @ n2"
    "map field n2 = (case host th rc of Inl e \<Rightarrow> []
        | Inr h \<Rightarrow> (case as_str h of None \<Rightarrow> [''host'']
            | Some s \<Rightarrow> if s = [] then [''host''] else []))"
    using check_host_errors [of th rc c1] r2 by auto
  have e2: "e2 = (case host th rc of Inl e \<Rightarrow> Some e | Inr p \<Rightarrow> None)"
    using check_host_raises [of th rc c1] r2 by simp
  obtain n3 where n3: "errors (snd (check_https_settings th bi rc c2)) = errors c2 @ n3"
    "map field n3 =
       (case use_https th rc of Inl e \<Rightarrow> []
        | Inr u \<Rightarrow> if truthy bi u then
            (case ssl_cert th rc of Inl e \<Rightarrow> []
             | Inr c \<Rightarrow> (if \<not> truthy bi c \<or> as_str c = None then [''ssl_cert''] else []) @
                 (case ssl_key th rc of Inl e \<Rightarrow> []
                  | Inr k \<Rightarrow> if \<not> truthy bi k \<or> as_str k = None then [''ssl_key''] else []))
          else [])"
    using check_https_errors [of th bi rc c2] by auto
  show ?thesis
  proof (cases "port th rc")
    case (Inl e)
    then show ?thesis using assms r1 e1 n1 by (simp add: reported_def check_def)
  next
    case p: (Inr p)
    show ?thesis
    proof (cases "host th rc")
      case (Inl e)
      then show ?thesis using assms p r1 e1 n1 r2 e2 n2 by (simp add: reported_def check_def)
    next
      case h: (Inr h)
      then show ?thesis
        using assms p r1 e1 n1 r2 e2 n2 n3 by (simp add: reported_def check_def)
    qed
  qed
qed

lemma port_list_fields:
  "set (case as_int p of None \<Rightarrow> [''port'']
        | Some i \<Rightarrow> if 1 \<le> i \<and> i \<le> 65535 then [] else [''port'']) =
     (if (\<exists>i. as_int p = Some i \<and> 1 \<le> i \<and> i \<le> 65535) then {} else {''port''})"
  by (cases "as_int p") auto

lemma host_list_fields:
  "set (case as_str h of None \<Rightarrow> [''host''] | Some s \<Rightarrow> if s = [] then [''host''] else []) =
     (if (\<exists>s. h = PStr s \<and> s \<noteq> []) then {} else {''host''})"
  by (cases h) auto

subsection \<open>The port\<close>



subsection \<open>The host\<close>

text \<open>
  C5, as amended. For every configuration containing a REST unique section whose
  \<^verbatim>\<open>port\<close> property can be read and whose \<^verbatim>\<open>host\<close> property has the value \<open>h\<close>,
  the REST config check reports a "host" error if and only if \<open>h\<close> is not a non-empty
  string.
\<close>

theorem check_host_reported:
  assumes rest: "unique_sections cfg ''REST'' = Some rc"
    and p: "port th rc = Inr p" and h: "host th rc = Inr h"
  shows "(''host'' \<in> set (reported col (check th bi cfg col))) =
           (\<not> (\<exists>s. h = PStr s \<and> s \<noteq> []))"
proof (cases "use_https th rc")
  case (Inl e)
  show ?thesis
    unfolding check_reported [OF rest] p h Inl sum.case set_append port_list_fields
      host_list_fields
    by auto
next
  case u: (Inr u)
  show ?thesis
  proof (cases "ssl_cert th rc")
    case (Inl e)
    show ?thesis
      unfolding check_reported [OF rest] p h u Inl sum.case set_append port_list_fields
        host_list_fields
      by auto
  next
    case c: (Inr c)
    show ?thesis
    proof (cases "ssl_key th rc")
      case (Inl e)
      show ?thesis
        unfolding check_reported [OF rest] p h u c Inl sum.case set_append port_list_fields
          host_list_fields
        by auto
    next
      case (Inr k)
      show ?thesis
        unfolding check_reported [OF rest] p h u c Inr sum.case set_append port_list_fields
          host_list_fields
        by auto
    qed
  qed
qed

theorem check_host_reported_witness:
  "''host'' \<in> set (reported IssueCollector
      (check (env_handler bare_library) bare_builtins
         (rest_only (default_config\<lparr>raw_port := PInt 70000, raw_host := PStr []\<rparr>))
         IssueCollector))"
proof -
  have 1: "unique_sections
             (rest_only (default_config\<lparr>raw_port := PInt 70000, raw_host := PStr []\<rparr>
                :: (unit, unit, unit) rest_config)) ''REST'' =
           Some (default_config\<lparr>raw_port := PInt 70000, raw_host := PStr []\<rparr>)"
    by (simp add: rest_only_def)
  have 2: "port (env_handler bare_library)
             (default_config\<lparr>raw_port := PInt 70000, raw_host := PStr []\<rparr>) = Inr (PInt 70000)"
    by (simp add: port_def env_handler_def env_replace_template_def default_config_def)
  have 3: "host (env_handler bare_library)
             (default_config\<lparr>raw_port := PInt 70000, raw_host := PStr []\<rparr>) = Inr (PStr [])"
    by (simp add: host_def env_handler_def env_replace_template_def default_config_def
        PATTERN_fullmatch_def)
  show ?thesis
    using check_host_reported [OF 1 2 3, of IssueCollector bare_builtins] by simp
qed

text \<open>
  Without the condition on the port the claim fails: when the port is a template whose
  environment variable is not set, reading it raises, the check ends there, and an
  empty host is not reported.
\<close>

theorem check_host_unread_port_counterexample:
  "unique_sections
     (rest_only (default_config\<lparr>raw_port := PStr ''ENV[PORT]'', raw_host := PStr []\<rparr>
        :: (unit, unit, unit) rest_config)) ''REST'' =
     Some (default_config\<lparr>raw_port := PStr ''ENV[PORT]'', raw_host := PStr []\<rparr>) \<and>
   host (env_handler bare_library)
     (default_config\<lparr>raw_port := PStr ''ENV[PORT]'', raw_host := PStr []\<rparr>) = Inr (PStr []) \<and>
   ''host'' \<notin> set (reported IssueCollector
      (check (env_handler bare_library) bare_builtins
         (rest_only (default_config\<lparr>raw_port := PStr ''ENV[PORT]'', raw_host := PStr []\<rparr>))
         IssueCollector)) \<and>
   fst (check (env_handler bare_library) bare_builtins
         (rest_only (default_config\<lparr>raw_port := PStr ''ENV[PORT]'', raw_host := PStr []\<rparr>))
         IssueCollector) = Some (HandlerError ''Environment variable PORT is not set.'')"
  by (simp add: rest_only_def host_def port_def env_handler_def env_replace_template_def
      PATTERN_fullmatch_def is_word_char_def is_digit_char_def bare_library_def
      reported_def check_def check_port_def IssueCollector_def default_config_def)

subsection \<open>HTTPS\<close>

text \<open>
  C4, as amended. For every configuration containing a REST unique section whose
  \<^verbatim>\<open>use_https\<close> property has the value \<open>u\<close>: when \<open>u\<close> is true and the
  \<^verbatim>\<open>port\<close> and \<^verbatim>\<open>host\<close> properties can be read, the REST config check reports an
  "ssl_cert" error when \<^verbatim>\<open>ssl_cert\<close> is unset (\<^verbatim>\<open>None\<close>), and an "ssl_key" error
  when \<^verbatim>\<open>ssl_cert\<close> can be read and \<^verbatim>\<open>ssl_key\<close> is unset; when \<open>u\<close> is false,
  no "ssl_cert" or "ssl_key" error is ever reported.
\<close>

theorem check_https_reported:
  assumes rest: "unique_sections cfg ''REST'' = Some rc" and u: "use_https th rc = Inr u"
  shows "(truthy bi u \<and> port th rc = Inr p \<and> host th rc = Inr h \<and> ssl_cert th rc = Inr PNone
            \<longrightarrow> ''ssl_cert'' \<in> set (reported col (check th bi cfg col))) \<and>
         (truthy bi u \<and> port th rc = Inr p \<and> host th rc = Inr h \<and> ssl_cert th rc = Inr c \<and>
          ssl_key th rc = Inr PNone
            \<longrightarrow> ''ssl_key'' \<in> set (reported col (check th bi cfg col))) \<and>
         (\<not> truthy bi u
            \<longrightarrow> ''ssl_cert'' \<notin> set (reported col (check th bi cfg col)) \<and>
                ''ssl_key'' \<notin> set (reported col (check th bi cfg col)))"
proof (intro conjI impI)
  assume a: "truthy bi u \<and> port th rc = Inr p \<and> host th rc = Inr h \<and> ssl_cert th rc = Inr PNone"
  then have t: "truthy bi u" and p: "port th rc = Inr p" and h: "host th rc = Inr h"
    and c: "ssl_cert th rc = Inr PNone" by simp_all
  show "''ssl_cert'' \<in> set (reported col (check th bi cfg col))"
    unfolding check_reported [OF rest] p h u c sum.case set_append
    using t by simp
next
  assume a: "truthy bi u \<and> port th rc = Inr p \<and> host th rc = Inr h \<and> ssl_cert th rc = Inr c \<and>
    ssl_key th rc = Inr PNone"
  then have t: "truthy bi u" and p: "port th rc = Inr p" and h: "host th rc = Inr h"
    and c: "ssl_cert th rc = Inr c" and k: "ssl_key th rc = Inr PNone" by simp_all
  show "''ssl_key'' \<in> set (reported col (check th bi cfg col))"
    unfolding check_reported [OF rest] p h u c k sum.case set_append
    using t by simp
next
  assume f: "\<not> truthy bi u"
  have "set (reported col (check th bi cfg col)) \<subseteq> {''port'', ''host''}"
  proof (cases "port th rc")
    case (Inl e)
    show ?thesis unfolding check_reported [OF rest] Inl sum.case by simp
  next
    case p: (Inr p')
    show ?thesis
    proof (cases "host th rc")
      case (Inl e)
      show ?thesis
        unfolding check_reported [OF rest] p Inl sum.case set_append port_list_fields
        by auto
    next
      case (Inr h')
      show ?thesis
        unfolding check_reported [OF rest] p Inr u sum.case set_append port_list_fields
          host_list_fields
        using f by auto
    qed
  qed
  then show "''ssl_cert'' \<notin> set (reported col (check th bi cfg col))"
    and "''ssl_key'' \<notin> set (reported col (check th bi cfg col))"
    by auto
qed

theorem check_https_reported_witness:
  "''ssl_cert'' \<in> set (reported IssueCollector
      (check (env_handler bare_library) bare_builtins
         (rest_only (default_config\<lparr>raw_use_https := PBool True\<rparr>)) IssueCollector)) \<and>
   ''ssl_key'' \<in> set (reported IssueCollector
      (check (env_handler bare_library) bare_builtins
         (rest_only (default_config\<lparr>raw_use_https := PBool True\<rparr>)) IssueCollector)) \<and>
   ''ssl_cert'' \<notin> set (reported IssueCollector
      (check (env_handler bare_library) bare_builtins (rest_only default_config) IssueCollector)) \<and>
   ''ssl_key'' \<notin> set (reported IssueCollector
      (check (env_handler bare_library) bare_builtins (rest_only default_config) IssueCollector))"
proof -
  let ?th = "env_handler bare_library"
  let ?on = "default_config\<lparr>raw_use_https := PBool True\<rparr> :: (unit, unit, unit) rest_config"
  let ?off = "default_config :: (unit, unit, unit) rest_config"
  have r1: "unique_sections (rest_only ?on) ''REST'' = Some ?on"
    and r2: "unique_sections (rest_only ?off) ''REST'' = Some ?off"
    by (simp_all add: rest_only_def)
  have u1: "use_https ?th ?on = Inr (PBool True)"
    and u2: "use_https ?th ?off = Inr (PBool False)"
    by (simp_all add: use_https_def env_handler_def env_replace_template_def default_config_def)
  have rest: "port ?th ?on = Inr (PInt 5000)" "host ?th ?on = Inr (PStr ''127.0.0.1'')"
    "ssl_cert ?th ?on = Inr PNone" "ssl_key ?th ?on = Inr PNone"
    by (simp_all add: port_def host_def ssl_cert_def ssl_key_def env_handler_def
        env_replace_template_def default_config_def PATTERN_fullmatch_def)
  show ?thesis
    using check_https_reported [OF r1 u1, of bare_builtins "PInt 5000" "PStr ''127.0.0.1''"
        IssueCollector PNone]
      check_https_reported [OF r2 u2, of bare_builtins "PInt 5000" "PStr ''127.0.0.1''"
        IssueCollector PNone]
      rest
    by simp
qed

text \<open>
  Without the condition on the port the first part fails, as for the host: HTTPS is on
  and the certificate is unset, but reading the port raises first.
\<close>

theorem check_https_unread_port_counterexample:
  "unique_sections
     (rest_only (default_config\<lparr>raw_port := PStr ''ENV[PORT]'', raw_use_https := PBool True\<rparr>
        :: (unit, unit, unit) rest_config)) ''REST'' =
     Some (default_config\<lparr>raw_port := PStr ''ENV[PORT]'', raw_use_https := PBool True\<rparr>) \<and>
   use_https (env_handler bare_library)
     (default_config\<lparr>raw_port := PStr ''ENV[PORT]'', raw_use_https := PBool True\<rparr>) =
     Inr (PBool True) \<and>
   ssl_cert (env_handler bare_library)
     (default_config\<lparr>raw_port := PStr ''ENV[PORT]'', raw_use_https := PBool True\<rparr>) =
     Inr PNone \<and>
   ''ssl_cert'' \<notin> set (reported IssueCollector
      (check (env_handler bare_library) bare_builtins
         (rest_only (default_config\<lparr>raw_port := PStr ''ENV[PORT]'', raw_use_https := PBool True\<rparr>))
         IssueCollector)) \<and>
   fst (check (env_handler bare_library) bare_builtins
         (rest_only (default_config\<lparr>raw_port := PStr ''ENV[PORT]'', raw_use_https := PBool True\<rparr>))
         IssueCollector) = Some (HandlerError ''Environment variable PORT is not set.'')"
  by (simp add: rest_only_def use_https_def ssl_cert_def port_def env_handler_def
      env_replace_template_def PATTERN_fullmatch_def is_word_char_def is_digit_char_def
      bare_library_def reported_def check_def check_port_def IssueCollector_def
      default_config_def)

section \<open>Properties of the conversion to and from a dictionary\<close>

lemma pop_field:
  assumes "d key = (if v \<noteq> PNone then Some v else None)"
  shows "pop d key PNone = (v, d(key := None))"
  using assms by (simp add: pop_def)

lemma popped:
  assumes "properties c ''port'' = None" "properties c ''host'' = None"
    "properties c ''use_https'' = None" "properties c ''ssl_cert'' = None"
    "properties c ''ssl_key'' = None"
  shows "(to_dict c)(''port'' := None, ''host'' := None, ''use_https'' := None,
            ''ssl_cert'' := None, ''ssl_key'' := None) = properties c"
proof
  fix k
  show "((to_dict c)(''port'' := None, ''host'' := None, ''use_https'' := None,
            ''ssl_cert'' := None, ''ssl_key'' := None)) k = properties c k"
  proof (cases "properties c k")
    case None
    then show ?thesis by (simp add: to_dict_def map_add_def)
  next
    case (Some a)
    then have "k \<noteq> ''port''" "k \<noteq> ''host''" "k \<noteq> ''use_https''" "k \<noteq> ''ssl_cert''"
      "k \<noteq> ''ssl_key''"
      using assms by (metis option.distinct(1))+
    then show ?thesis using Some by (simp add: to_dict_def map_add_def)
  qed
qed

lemma to_dict_field:
  assumes "properties c ''port'' = None" "properties c ''host'' = None"
    "properties c ''use_https'' = None" "properties c ''ssl_cert'' = None"
    "properties c ''ssl_key'' = None"
  shows "to_dict c ''port'' = (if raw_port c \<noteq> PNone then Some (raw_port c) else None)"
    and "to_dict c ''host'' = (if raw_host c \<noteq> PNone then Some (raw_host c) else None)"
    and "to_dict c ''use_https'' =
           (if raw_use_https c \<noteq> PNone then Some (raw_use_https c) else None)"
    and "to_dict c ''ssl_cert'' =
           (if raw_ssl_cert c \<noteq> PNone then Some (raw_ssl_cert c) else None)"
    and "to_dict c ''ssl_key'' =
           (if raw_ssl_key c \<noteq> PNone then Some (raw_ssl_key c) else None)"
  using assms by (simp_all add: to_dict_def map_add_def)

text \<open>
  C9, as amended. For every \<^verbatim>\<open>RestConfig\<close> \<open>c\<close> whose extra properties contain
  none of the five reserved keys and not the key "self", and whose properties the
  constructor of the base class accepts and stores as they are,
  \<^verbatim>\<open>RestConfig._from_dict(c._to_dict())\<close> yields a \<^verbatim>\<open>RestConfig\<close> equal to \<open>c\<close>
  on all five fields and on the extra properties; \<^verbatim>\<open>_to_dict\<close> omits exactly those of
  the five fields whose value is \<^verbatim>\<open>None\<close>, and \<^verbatim>\<open>_from_dict\<close> restores omitted
  fields as \<^verbatim>\<open>None\<close>.
\<close>

theorem from_dict_to_dict:
  assumes reserved: "properties c ''port'' = None \<and> properties c ''host'' = None \<and>
      properties c ''use_https'' = None \<and> properties c ''ssl_cert'' = None \<and>
      properties c ''ssl_key'' = None"
    and self: "properties c ''self'' = None"
    and base: "section_init (properties c) = Inr (properties c)"
  shows "from_dict section_init (to_dict c) = Inr c \<and>
         (to_dict c ''port'' = None) = (raw_port c = PNone) \<and>
         (to_dict c ''host'' = None) = (raw_host c = PNone) \<and>
         (to_dict c ''use_https'' = None) = (raw_use_https c = PNone) \<and>
         (to_dict c ''ssl_cert'' = None) = (raw_ssl_cert c = PNone) \<and>
         (to_dict c ''ssl_key'' = None) = (raw_ssl_key c = PNone)"
proof -
  have r: "properties c ''port'' = None" "properties c ''host'' = None"
    "properties c ''use_https'' = None" "properties c ''ssl_cert'' = None"
    "properties c ''ssl_key'' = None"
    using reserved by simp_all
  note f = to_dict_field [OF r]
  have d5: "(to_dict c)(''port'' := None, ''host'' := None, ''use_https'' := None,
            ''ssl_cert'' := None, ''ssl_key'' := None) = properties c"
    by (rule popped [OF r])
  have p1: "pop (to_dict c) ''port'' PNone = (raw_port c, (to_dict c)(''port'' := None))"
    by (rule pop_field) (rule f(1))
  have p2: "pop ((to_dict c)(''port'' := None)) ''host'' PNone =
      (raw_host c, (to_dict c)(''port'' := None, ''host'' := None))"
    by (rule pop_field) (simp add: f(2))
  have p3: "pop ((to_dict c)(''port'' := None, ''host'' := None)) ''use_https'' PNone =
      (raw_use_https c, (to_dict c)(''port'' := None, ''host'' := None, ''use_https'' := None))"
    by (rule pop_field) (simp add: f(3))
  have p4: "pop ((to_dict c)(''port'' := None, ''host'' := None, ''use_https'' := None))
        ''ssl_cert'' PNone =
      (raw_ssl_cert c, (to_dict c)(''port'' := None, ''host'' := None, ''use_https'' := None,
         ''ssl_cert'' := None))"
    by (rule pop_field) (simp add: f(4))
  have p5: "pop ((to_dict c)(''port'' := None, ''host'' := None, ''use_https'' := None,
         ''ssl_cert'' := None)) ''ssl_key'' PNone =
      (raw_ssl_key c, (to_dict c)(''port'' := None, ''host'' := None, ''use_https'' := None,
         ''ssl_cert'' := None, ''ssl_key'' := None))"
    by (rule pop_field) (simp add: f(5))
  have "from_dict section_init (to_dict c) =
          RestConfig section_init (raw_port c) (raw_host c) (raw_use_https c) (raw_ssl_cert c)
            (raw_ssl_key c) (properties c)"
    unfolding from_dict_def p1 p2 p3 p4 p5 Let_def prod.case d5 by (rule refl)
  also have "\<dots> = Inr c"
    using r self base by (simp add: RestConfig_def)
  finally have "from_dict section_init (to_dict c) = Inr c" .
  then show ?thesis using f by simp
qed

theorem from_dict_to_dict_witness:
  "from_dict Section_init
     (to_dict (\<lparr>raw_port = PInt 8080, raw_host = PStr ''0.0.0.0'', raw_use_https = PBool True,
        raw_ssl_cert = PNone, raw_ssl_key = PStr ''key.pem'',
        properties = [''tag'' \<mapsto> PStr ''x'']\<rparr> :: (unit, unit, unit) rest_config)) =
     Inr \<lparr>raw_port = PInt 8080, raw_host = PStr ''0.0.0.0'', raw_use_https = PBool True,
        raw_ssl_cert = PNone, raw_ssl_key = PStr ''key.pem'',
        properties = [''tag'' \<mapsto> PStr ''x'']\<rparr>"
proof -
  let ?c = "\<lparr>raw_port = PInt 8080, raw_host = PStr ''0.0.0.0'', raw_use_https = PBool True,
        raw_ssl_cert = PNone, raw_ssl_key = PStr ''key.pem'',
        properties = [''tag'' \<mapsto> PStr ''x'']\<rparr> :: (unit, unit, unit) rest_config"
  have 1: "properties ?c ''port'' = None \<and> properties ?c ''host'' = None \<and>
      properties ?c ''use_https'' = None \<and> properties ?c ''ssl_cert'' = None \<and>
      properties ?c ''ssl_key'' = None"
    by simp
  have 2: "properties ?c ''self'' = None" by simp
  have 3: "Section_init (properties ?c) = Inr (properties ?c)" by (simp add: Section_init_def)
  from from_dict_to_dict [where c = "?c" and section_init = Section_init, OF 1 2 3]
  show ?thesis by (rule conjunct1)
qed

text \<open>
  With a property named "self" and none of the five reserved keys, \<^verbatim>\<open>_from_dict\<close>
  does not return: the constructor is called with \<^verbatim>\<open>self\<close> given twice.
\<close>

theorem from_dict_self_counterexample:
  "properties (default_config\<lparr>properties := [''self'' \<mapsto> PInt 1]\<rparr>
      :: (unit, unit, unit) rest_config) ''port'' = None \<and>
   properties (default_config\<lparr>properties := [''self'' \<mapsto> PInt 1]\<rparr>
      :: (unit, unit, unit) rest_config) ''host'' = None \<and>
   properties (default_config\<lparr>properties := [''self'' \<mapsto> PInt 1]\<rparr>
      :: (unit, unit, unit) rest_config) ''use_https'' = None \<and>
   properties (default_config\<lparr>properties := [''self'' \<mapsto> PInt 1]\<rparr>
      :: (unit, unit, unit) rest_config) ''ssl_cert'' = None \<and>
   properties (default_config\<lparr>properties := [''self'' \<mapsto> PInt 1]\<rparr>
      :: (unit, unit, unit) rest_config) ''ssl_key'' = None \<and>
   from_dict Section_init
     (to_dict (default_config\<lparr>properties := [''self'' \<mapsto> PInt 1]\<rparr>
        :: (unit, unit, unit) rest_config)) =
     Inl (TypeError ''__init__() got multiple values for argument'')"
  by (simp add: from_dict_def to_dict_def pop_def RestConfig_def default_config_def
      map_add_def Let_def)

section \<open>Properties of the markdown factory\<close>

text \<open>
  C7. For every element type \<open>t\<close> for which the builder lookup returns \<^verbatim>\<open>None\<close>,
  \<^verbatim>\<open>create_element\<close> returns exactly the string
  \<^verbatim>\<open><|UNKNOWN ELEMENT TYPE 't'|>\<close> with \<open>t\<close> put in, whatever the properties string.
\<close>

theorem create_element_unknown:
  assumes "call_builder fac gui t (map_of (rev (PROPERTY_RE_findall fac all_properties))) = Inr None"
  shows "create_element fac gui t all_properties =
           Inr (Markup (''<|UNKNOWN ELEMENT TYPE '' @ [CHR 0x27] @ t @ [CHR 0x27] @ ''|>''))"
  using assms by (simp add: create_element_def)

theorem create_element_unknown_witness:
  "create_element no_builders () ''nope'' ''label=x'' =
     Inr (Markup (''<|UNKNOWN ELEMENT TYPE '' @ [CHR 0x27] @ ''nope'' @ [CHR 0x27] @ ''|>''))"
proof -
  have 1: "call_builder no_builders () ''nope''
             (map_of (rev (PROPERTY_RE_findall no_builders ''label=x''))) = Inr None"
    by (simp add: no_builders_def)
  show ?thesis by (rule create_element_unknown [OF 1])
qed

end
